theory Spec2Isabelle
  imports Main
begin

section \<open>Python values as the service sees them\<close>

text \<open>
  The service of \<^verbatim>\<open>api/keepalive.py\<close> reads one JSON text from the environment,
  decodes it with \<^verbatim>\<open>json.loads\<close> and later reads rows returned by the Supabase
  client. Both are JSON-shaped Python objects: \<^verbatim>\<open>None\<close>, booleans, integers, strings,
  lists and dictionaries with string keys. A dictionary is an association list in
  insertion order whose first binding of a key is the one looked up. A \<^verbatim>\<open>str\<close> is
  a \<open>string\<close>; the Chinese texts of the source are written as their UTF-8 bytes, so
  a character beyond ASCII counts as several where a string is measured or iterated.
  Floating point numbers are left out.
\<close>

datatype pyval =
    PNone
  | PBool bool
  | PInt int
  | PStr string
  | PList "pyval list"
  | PDict "(string \<times> pyval) list"

text \<open>The name of a value's Python type, as error messages print it.\<close>

fun type_name :: "pyval \<Rightarrow> string" where
  "type_name PNone = ''NoneType''"
| "type_name (PBool _) = ''bool''"
| "type_name (PInt _) = ''int''"
| "type_name (PStr _) = ''str''"
| "type_name (PList _) = ''list''"
| "type_name (PDict _) = ''dict''"

text \<open>
  What the interpreter itself finds wrong with a value: it cannot be iterated, it
  cannot be subscripted with a string, it has no length, it cannot be a dictionary key,
  or it is not a string where \<^verbatim>\<open>join\<close> wants one (with its position). The wording
  of the message that goes with a \<^verbatim>\<open>TypeError\<close> differs between Python versions, so
  it is a parameter (\<open>type_error_text\<close> below); the fault records the operation and the
  name of the type involved.
\<close>

datatype fault =
    NotIterable string
  | BadSubscript string
  | NoLen string
  | Unhashable string
  | JoinItem nat string

text \<open>
  The exceptions that can travel through the module. \<open>ClientError s\<close> is any exception
  raised inside the Supabase client library whose \<^verbatim>\<open>str\<close> is \<open>s\<close>.
\<close>

datatype py_exception =
    ValueError string
  | KeyError pyval
  | IndexError
  | TypeError fault
  | AttributeError string string
  | JSONDecodeError string nat nat nat
  | ClientError string
  | HTTPException nat string

text \<open>
  The parts of the interpreter the source relies on without fixing them:
  \<^item> \<open>repr_value\<close>: \<^verbatim>\<open>str(v)\<close> of a value that is not a \<^verbatim>\<open>str\<close>;
  \<^item> \<open>type_error_text\<close>: the message of a \<^verbatim>\<open>TypeError\<close>;
  \<^item> \<open>set_iteration\<close>: the order in which a set of strings is iterated (it depends on
    the hash seed); it is applied to the elements in the order of the source's literal.
    Whether the set is empty does not depend on it.
\<close>

record runtime =
  repr_value :: "pyval \<Rightarrow> string"
  type_error_text :: "fault \<Rightarrow> string"
  set_iteration :: "string list \<Rightarrow> string list"

subsection \<open>Decimal numerals, joins and formatting\<close>

definition digit_char :: "nat \<Rightarrow> char" where
  "digit_char d = char_of (48 + d)"

function str_nat :: "nat \<Rightarrow> string" where
  "str_nat n = (if n < 10 then [digit_char n] else str_nat (n div 10) @ [digit_char (n mod 10)])"
  by pat_completeness auto
termination
  by (relation "measure (\<lambda>n. n)") auto

declare str_nat.simps [simp del]

definition str_int :: "int \<Rightarrow> string" where
  "str_int i = (if i < 0 then ''-'' @ str_nat (nat (- i)) else str_nat (nat i))"

text \<open>\<^verbatim>\<open>sep.join(xs)\<close> on a list of strings.\<close>

fun join :: "string \<Rightarrow> string list \<Rightarrow> string" where
  "join sep [] = []"
| "join sep [x] = x"
| "join sep (x # y # ys) = x @ sep @ join sep (y # ys)"

text \<open>A value inside an f-string: a \<^verbatim>\<open>str\<close> is inserted as it is.\<close>

definition py_format :: "runtime \<Rightarrow> pyval \<Rightarrow> string" where
  "py_format R v = (case v of PStr s \<Rightarrow> s | _ \<Rightarrow> repr_value R v)"

text \<open>
  \<^verbatim>\<open>str(e)\<close> of an exception. That of a \<^verbatim>\<open>KeyError\<close> is the \<^verbatim>\<open>repr\<close> of the key; the
  string keys of the source are plain words, which \<^verbatim>\<open>repr\<close> puts in single quotes.
\<close>

fun exception_str :: "runtime \<Rightarrow> py_exception \<Rightarrow> string" where
  "exception_str R (ValueError m) = m"
| "exception_str R (KeyError k) =
     (case k of PStr s \<Rightarrow> [CHR 0x27] @ s @ [CHR 0x27] | _ \<Rightarrow> repr_value R k)"
| "exception_str R IndexError = ''list index out of range''"
| "exception_str R (TypeError f) = type_error_text R f"
| "exception_str R (AttributeError ty a) =
     [CHR 0x27] @ ty @ [CHR 0x27] @ '' object has no attribute '' @ [CHR 0x27] @ a @ [CHR 0x27]"
| "exception_str R (JSONDecodeError m l c p) =
     m @ '': line '' @ str_nat l @ '' column '' @ str_nat c @ '' (char '' @ str_nat p @ '')''"
| "exception_str R (ClientError s) = s"
| "exception_str R (HTTPException code detail) = detail"

subsection \<open>The operations on values that the source uses\<close>

text \<open>\<^verbatim>\<open>for x in v\<close>: a list gives its elements, a dictionary its keys, a string its
  characters (each again a string); anything else is not iterable.\<close>

fun py_iter :: "pyval \<Rightarrow> py_exception + pyval list" where
  "py_iter (PList xs) = Inr xs"
| "py_iter (PDict kvs) = Inr (map (\<lambda>kv. PStr (fst kv)) kvs)"
| "py_iter (PStr s) = Inr (map (\<lambda>c. PStr [c]) s)"
| "py_iter v = Inl (TypeError (NotIterable (type_name v)))"

text \<open>\<^verbatim>\<open>len(v)\<close>.\<close>

fun py_len :: "pyval \<Rightarrow> py_exception + nat" where
  "py_len (PList xs) = Inr (length xs)"
| "py_len (PDict kvs) = Inr (length kvs)"
| "py_len (PStr s) = Inr (length s)"
| "py_len v = Inl (TypeError (NoLen (type_name v)))"

text \<open>\<^verbatim>\<open>v[k]\<close> with a string \<open>k\<close>: only a dictionary can answer.\<close>

fun py_getitem :: "pyval \<Rightarrow> string \<Rightarrow> py_exception + pyval" where
  "py_getitem (PDict kvs) k = (case map_of kvs k of None \<Rightarrow> Inl (KeyError (PStr k)) | Some v \<Rightarrow> Inr v)"
| "py_getitem v k = Inl (TypeError (BadSubscript (type_name v)))"

text \<open>\<^verbatim>\<open>v[i]\<close> with an integer \<open>i\<close> that the caller has checked to be in
  \<open>0 \<le> i < len(v)\<close>; a dictionary has no integer keys.\<close>

fun py_index :: "pyval \<Rightarrow> nat \<Rightarrow> py_exception + pyval" where
  "py_index (PList xs) i = (if i < length xs then Inr (xs ! i) else Inl IndexError)"
| "py_index (PStr s) i = (if i < length s then Inr (PStr [s ! i]) else Inl IndexError)"
| "py_index (PDict kvs) i = Inl (KeyError (PInt (int i)))"
| "py_index v i = Inl (TypeError (BadSubscript (type_name v)))"

text \<open>\<^verbatim>\<open>v.keys()\<close>: only a dictionary has the method.\<close>

fun py_keys :: "pyval \<Rightarrow> py_exception + string list" where
  "py_keys (PDict kvs) = Inr (map fst kvs)"
| "py_keys v = Inl (AttributeError (type_name v) ''keys'')"

section \<open>Module initialisation: the configuration and the startup error\<close>

text \<open>The two module-level globals.\<close>

record state =
  config_list :: pyval
  startup_error :: "string option"

definition msg_not_array :: string where
  "msg_not_array = ''SUPABASE_CONFIG '' @ [CHR 0xE5, CHR 0xBF, CHR 0x85, CHR 0xE9, CHR 0xA1, CHR 0xBB,
     CHR 0xE6, CHR 0x98, CHR 0xAF] @ '' JSON '' @ [CHR 0xE6, CHR 0x95, CHR 0xB0, CHR 0xE7, CHR 0xBB,
     CHR 0x84, CHR 0xE6, CHR 0xA0, CHR 0xBC, CHR 0xE5, CHR 0xBC, CHR 0x8F]"

definition msg_empty_array :: string where
  "msg_empty_array = ''SUPABASE_CONFIG '' @ [CHR 0xE4, CHR 0xB8, CHR 0x8D, CHR 0xE8, CHR 0x83, CHR 0xBD,
     CHR 0xE4, CHR 0xB8, CHR 0xBA, CHR 0xE7, CHR 0xA9, CHR 0xBA, CHR 0xE6, CHR 0x95, CHR 0xB0, CHR 0xE7,
     CHR 0xBB, CHR 0x84]"

definition msg_missing :: "nat \<Rightarrow> string list \<Rightarrow> string" where
  "msg_missing idx missing = [CHR 0xE9, CHR 0x85, CHR 0x8D, CHR 0xE7, CHR 0xBD, CHR 0xAE] @ '' index=''
     @ str_nat idx @ '' '' @ [CHR 0xE7, CHR 0xBC, CHR 0xBA, CHR 0xE5, CHR 0xB0, CHR 0x91, CHR 0xE5,
     CHR 0xAD, CHR 0x97, CHR 0xE6, CHR 0xAE, CHR 0xB5] @ '': '' @ join '', '' missing"

definition required_fields :: "string list" where
  "required_fields = [''name'', ''supabase_url'', ''supabase_key'', ''table_name'']"

text \<open>
  The loop of lines 32 to 37: \<open>idx\<close> counts from \<open>0\<close>; the first element that has no
  \<^verbatim>\<open>keys\<close> method or lacks a required field raises, which ends the loop.
\<close>

fun check_fields :: "runtime \<Rightarrow> nat \<Rightarrow> pyval list \<Rightarrow> py_exception option" where
  "check_fields R idx [] = None"
| "check_fields R idx (conf # rest) =
     (case py_keys conf of
        Inl e \<Rightarrow> Some e
      | Inr ks \<Rightarrow>
          (let missing = filter (\<lambda>f. f \<notin> set ks) required_fields
           in if missing \<noteq> [] then Some (ValueError (msg_missing idx (set_iteration R missing)))
              else check_fields R (Suc idx) rest))"

text \<open>
  The body of the \<^verbatim>\<open>try\<close> of lines 22 to 37, after \<^verbatim>\<open>json.loads\<close> has returned
  \<open>v\<close>: the exception it raises, if any.
\<close>

definition validate :: "runtime \<Rightarrow> pyval \<Rightarrow> py_exception option" where
  "validate R v =
     (case v of
        PList confs \<Rightarrow>
          if length confs = 0 then Some (ValueError msg_empty_array)
          else check_fields R 0 confs
      | _ \<Rightarrow> Some (ValueError msg_not_array))"

text \<open>
  What \<^verbatim>\<open>json.loads(SUPABASE_CONFIG_RAW)\<close> does with the text of the environment
  variable: it returns a value, or it raises \<^verbatim>\<open>json.JSONDecodeError\<close> with a message,
  a line, a column and a position.
\<close>

datatype decoded = Decoded pyval | DecodeFailed string nat nat nat

text \<open>
  Lines 17 to 40. When \<^verbatim>\<open>json.loads\<close> raises, \<open>config_list\<close> keeps its initial
  \<^verbatim>\<open>[]\<close>; when it returns \<open>v\<close>, \<open>v\<close> is assigned to \<open>config_list\<close> before any check.
  The \<^verbatim>\<open>print\<close> of line 40 is not part of the state.
\<close>

definition module_init :: "runtime \<Rightarrow> decoded \<Rightarrow> state" where
  "module_init R d =
     (case d of
        DecodeFailed m l c p \<Rightarrow>
          \<lparr>config_list = PList [], startup_error = Some (exception_str R (JSONDecodeError m l c p))\<rparr>
      | Decoded v \<Rightarrow>
          (case validate R v of
             Some e \<Rightarrow> \<lparr>config_list = v, startup_error = Some (exception_str R e)\<rparr>
           | None \<Rightarrow> \<lparr>config_list = v, startup_error = None\<rparr>))"

section \<open>The probe\<close>

text \<open>
  The Supabase client library and the database behind it are outside the program. They
  are a record of three operations over a state of the outside world \<open>'w\<close>, each
  returning the new world and either \<open>Inl s\<close>, an exception whose \<^verbatim>\<open>str\<close> is \<open>s\<close>, or
  its answer:
  \<^item> \<open>create_client url key\<close> is \<^verbatim>\<open>create_client(url, key)\<close>, giving a client \<open>'c\<close>;
  \<^item> \<open>sql_execute c q\<close> is \<^verbatim>\<open>c.sql(q).execute()\<close> followed by reading the \<^verbatim>\<open>.data\<close>
    attribute of the response;
  \<^item> \<open>table_select c t\<close> is
    \<^verbatim>\<open>c.table(t).select("*", count="exact").limit(1).execute()\<close>.
\<close>

text \<open>
  The two SQL texts of the source. \<open>SchemasQuery\<close> is the text of lines 51 to 55
  (the schema names of \<^verbatim>\<open>information_schema.schemata\<close> other than
  \<^verbatim>\<open>information_schema\<close>, \<^verbatim>\<open>pg_catalog\<close> and \<^verbatim>\<open>pg_toast\<close>); \<open>TablesQuery s\<close> is the
  f-string of lines 64 to 68 with \<open>s\<close> inserted for \<^verbatim>\<open>{schema}\<close> (the names of the
  base tables of that schema).
\<close>

datatype sql_query = SchemasQuery | TablesQuery string

record ('c, 'w) backend =
  create_client :: "pyval \<Rightarrow> pyval \<Rightarrow> 'w \<Rightarrow> (string + 'c) \<times> 'w"
  sql_execute :: "'c \<Rightarrow> sql_query \<Rightarrow> 'w \<Rightarrow> (string + pyval) \<times> 'w"
  table_select :: "'c \<Rightarrow> string \<Rightarrow> 'w \<Rightarrow> (string + pyval) \<times> 'w"

text \<open>The comprehension \<^verbatim>\<open>[row[k] for row in data]\<close>.\<close>

fun column :: "string \<Rightarrow> pyval list \<Rightarrow> py_exception + pyval list" where
  "column k [] = Inr []"
| "column k (row # rows) =
     (case py_getitem row k of
        Inl e \<Rightarrow> Inl e
      | Inr v \<Rightarrow> (case column k rows of Inl e \<Rightarrow> Inl e | Inr vs \<Rightarrow> Inr (v # vs)))"

definition rows_column :: "string \<Rightarrow> pyval \<Rightarrow> py_exception + pyval list" where
  "rows_column k data = (case py_iter data of Inl e \<Rightarrow> Inl e | Inr rows \<Rightarrow> column k rows)"

subsection \<open>The dictionary \<open>all_tables\<close>\<close>

text \<open>
  Its keys are whatever the rows hold as schema names. Lists and dictionaries cannot be
  keys; \<^verbatim>\<open>True\<close> and \<^verbatim>\<open>1\<close>, \<^verbatim>\<open>False\<close> and \<^verbatim>\<open>0\<close> are the same key. Assigning to a
  key that is present keeps its place and its first spelling and replaces the value.
\<close>

fun py_hashable :: "pyval \<Rightarrow> bool" where
  "py_hashable (PList _) = False"
| "py_hashable (PDict _) = False"
| "py_hashable _ = True"

fun key_eq :: "pyval \<Rightarrow> pyval \<Rightarrow> bool" where
  "key_eq (PBool a) (PInt n) = (n = (if a then 1 else 0))"
| "key_eq (PInt n) (PBool a) = (n = (if a then 1 else 0))"
| "key_eq a b = (a = b)"

fun dict_update :: "(pyval \<times> 'v) list \<Rightarrow> pyval \<Rightarrow> 'v \<Rightarrow> (pyval \<times> 'v) list" where
  "dict_update [] k v = [(k, v)]"
| "dict_update ((k', v') # d) k v =
     (if key_eq k' k then (k', v) # d else (k', v') # dict_update d k v)"

definition dict_set ::
  "(pyval \<times> 'v) list \<Rightarrow> pyval \<Rightarrow> 'v \<Rightarrow> py_exception + (pyval \<times> 'v) list" where
  "dict_set d k v =
     (if py_hashable k then Inr (dict_update d k v) else Inl (TypeError (Unhashable (type_name k))))"

text \<open>The loop of lines 63 to 72.\<close>

fun collect_tables ::
  "('c, 'w) backend \<Rightarrow> runtime \<Rightarrow> 'c \<Rightarrow> pyval list \<Rightarrow> (pyval \<times> pyval list) list \<Rightarrow> 'w
     \<Rightarrow> (py_exception + (pyval \<times> pyval list) list) \<times> 'w" where
  "collect_tables B R client [] all_tables w = (Inr all_tables, w)"
| "collect_tables B R client (schema # rest) all_tables w =
     (case sql_execute B client (TablesQuery (py_format R schema)) w of
        (Inl s, w') \<Rightarrow> (Inl (ClientError s), w')
      | (Inr data, w') \<Rightarrow>
          (case rows_column ''table_name'' data of
             Inl e \<Rightarrow> (Inl e, w')
           | Inr tables \<Rightarrow>
               if tables \<noteq> [] then
                 (case dict_set all_tables schema tables of
                    Inl e \<Rightarrow> (Inl e, w')
                  | Inr all_tables' \<Rightarrow> collect_tables B R client rest all_tables' w')
               else collect_tables B R client rest all_tables w'))"

subsection \<open>The message of a successful probe\<close>

text \<open>\<^verbatim>\<open>', '.join(ts)\<close> raises at the first item that is not a \<^verbatim>\<open>str\<close>.\<close>

fun str_items :: "nat \<Rightarrow> pyval list \<Rightarrow> py_exception + string list" where
  "str_items i [] = Inr []"
| "str_items i (t # ts) =
     (case t of
        PStr s \<Rightarrow> (case str_items (Suc i) ts of Inl e \<Rightarrow> Inl e | Inr ss \<Rightarrow> Inr (s # ss))
      | _ \<Rightarrow> Inl (TypeError (JoinItem i (type_name t))))"

definition py_join :: "string \<Rightarrow> pyval list \<Rightarrow> py_exception + string" where
  "py_join sep ts = (case str_items 0 ts of Inl e \<Rightarrow> Inl e | Inr ss \<Rightarrow> Inr (join sep ss))"

text \<open>The comprehension of line 84, one text per item of \<open>all_tables\<close>.\<close>

fun schema_entries :: "runtime \<Rightarrow> (pyval \<times> pyval list) list \<Rightarrow> py_exception + string list" where
  "schema_entries R [] = Inr []"
| "schema_entries R ((s, ts) # rest) =
     (case py_join '', '' ts of
        Inl e \<Rightarrow> Inl e
      | Inr j \<Rightarrow>
          (case schema_entries R rest of
             Inl e \<Rightarrow> Inl e
           | Inr es \<Rightarrow> Inr ((py_format R s @ '': ['' @ j @ '']'') # es)))"

subsection \<open>\<^verbatim>\<open>_perform_ping\<close>\<close>

text \<open>Lines 78 to 85, once \<open>all_tables\<close> is known to be non-empty.\<close>

definition ping_first_table ::
  "('c, 'w) backend \<Rightarrow> runtime \<Rightarrow> pyval \<Rightarrow> 'c \<Rightarrow> (pyval \<times> pyval list) list \<Rightarrow> 'w
     \<Rightarrow> (py_exception + bool \<times> string) \<times> 'w" where
  "ping_first_table B R conf client all_tables w =
     (case all_tables of
        [] \<Rightarrow> (Inl IndexError, w)
      | (first_schema, ts) # _ \<Rightarrow>
          (case ts of
             [] \<Rightarrow> (Inl IndexError, w)
           | first_table # _ \<Rightarrow>
               (case table_select B client (py_format R first_schema @ ''.'' @ py_format R first_table) w of
                  (Inl s, w') \<Rightarrow> (Inl (ClientError s), w')
                | (Inr response, w') \<Rightarrow>
                    (case schema_entries R all_tables of
                       Inl e \<Rightarrow> (Inl e, w')
                     | Inr es \<Rightarrow>
                         (case py_getitem conf ''name'' of
                            Inl e \<Rightarrow> (Inl e, w')
                          | Inr n \<Rightarrow>
                              (Inr (True, ''Pinged '' @ py_format R n @ '' (schemas and tables: ''
                                      @ join '', '' es @ '') successfully''), w'))))))"

text \<open>Lines 62 to 85, once the list \<open>schemas\<close> is known to be non-empty.\<close>

definition ping_tables ::
  "('c, 'w) backend \<Rightarrow> runtime \<Rightarrow> pyval \<Rightarrow> 'c \<Rightarrow> pyval list \<Rightarrow> 'w
     \<Rightarrow> (py_exception + bool \<times> string) \<times> 'w" where
  "ping_tables B R conf client schemas w =
     (case collect_tables B R client schemas [] w of
        (Inl e, w') \<Rightarrow> (Inl e, w')
      | (Inr all_tables, w') \<Rightarrow>
          if all_tables = [] then
            (case py_getitem conf ''name'' of
               Inl e \<Rightarrow> (Inl e, w')
             | Inr n \<Rightarrow> (Inr (False, ''No tables found in any schema for '' @ py_format R n), w'))
          else ping_first_table B R conf client all_tables w')"

text \<open>The body of the \<^verbatim>\<open>try\<close>, lines 48 to 85: \<open>Inl e\<close> when it raises \<open>e\<close>.\<close>

definition ping_body ::
  "('c, 'w) backend \<Rightarrow> runtime \<Rightarrow> pyval \<Rightarrow> 'w \<Rightarrow> (py_exception + bool \<times> string) \<times> 'w" where
  "ping_body B R conf w =
     (case py_getitem conf ''supabase_url'' of
        Inl e \<Rightarrow> (Inl e, w)
      | Inr url \<Rightarrow>
          (case py_getitem conf ''supabase_key'' of
             Inl e \<Rightarrow> (Inl e, w)
           | Inr key \<Rightarrow>
               (case create_client B url key w of
                  (Inl s, w1) \<Rightarrow> (Inl (ClientError s), w1)
                | (Inr supabase, w1) \<Rightarrow>
                    (case sql_execute B supabase SchemasQuery w1 of
                       (Inl s, w2) \<Rightarrow> (Inl (ClientError s), w2)
                     | (Inr data, w2) \<Rightarrow>
                         (case rows_column ''schema_name'' data of
                            Inl e \<Rightarrow> (Inl e, w2)
                          | Inr schemas \<Rightarrow>
                              if schemas = [] then
                                (case py_getitem conf ''name'' of
                                   Inl e \<Rightarrow> (Inl e, w2)
                                 | Inr n \<Rightarrow>
                                     (Inr (False, ''No schemas found for '' @ py_format R n), w2))
                              else ping_tables B R conf supabase schemas w2)))))"

text \<open>
  Lines 45 to 88. The handler of line 88 reads \<^verbatim>\<open>conf['name']\<close> itself, outside any
  \<^verbatim>\<open>try\<close>: when that fails the exception leaves the function (\<open>Inl\<close>).
\<close>

definition perform_ping ::
  "('c, 'w) backend \<Rightarrow> runtime \<Rightarrow> pyval \<Rightarrow> 'w \<Rightarrow> (py_exception + bool \<times> string) \<times> 'w" where
  "perform_ping B R conf w =
     (case ping_body B R conf w of
        (Inr r, w') \<Rightarrow> (Inr r, w')
      | (Inl e, w') \<Rightarrow>
          (case py_getitem conf ''name'' of
             Inl e' \<Rightarrow> (Inl e', w')
           | Inr n \<Rightarrow>
               (Inr (False, ''Error pinging '' @ py_format R n @ '': '' @ exception_str R e), w')))"

section \<open>Looking a configuration up\<close>

definition detail_no_index :: "int \<Rightarrow> string" where
  "detail_no_index idx = ''index '' @ str_int idx @ '' '' @ [CHR 0xE4, CHR 0xB8, CHR 0x8D, CHR 0xE5,
     CHR 0xAD, CHR 0x98, CHR 0xE5, CHR 0x9C, CHR 0xA8]"

definition detail_no_name :: "string \<Rightarrow> string" where
  "detail_no_name name = ''name '' @ [CHR 0x27] @ name @ [CHR 0x27] @ '' '' @ [CHR 0xE6, CHR 0x9C,
     CHR 0xAA, CHR 0xE6, CHR 0x89, CHR 0xBE, CHR 0xE5, CHR 0x88, CHR 0xB0, CHR 0xE5, CHR 0xAF, CHR 0xB9,
     CHR 0xE5, CHR 0xBA, CHR 0x94, CHR 0xE9, CHR 0x85, CHR 0x8D, CHR 0xE7, CHR 0xBD, CHR 0xAE]"

text \<open>
  Lines 91 to 94. The \<^verbatim>\<open>or\<close> of line 92 does not evaluate \<^verbatim>\<open>len(config_list)\<close> when
  \<open>idx\<close> is negative.
\<close>

definition get_conf_by_index :: "state \<Rightarrow> int \<Rightarrow> py_exception + pyval" where
  "get_conf_by_index st idx =
     (if idx < 0 then Inl (HTTPException 404 (detail_no_index idx))
      else
        (case py_len (config_list st) of
           Inl e \<Rightarrow> Inl e
         | Inr n \<Rightarrow>
             if idx \<ge> int n then Inl (HTTPException 404 (detail_no_index idx))
             else py_index (config_list st) (nat idx)))"

text \<open>\<^verbatim>\<open>v == name\<close> for a \<^verbatim>\<open>str\<close> \<open>name\<close>: only the same string is equal to it.\<close>

definition py_eq_str :: "pyval \<Rightarrow> string \<Rightarrow> bool" where
  "py_eq_str v name = (v = PStr name)"

text \<open>The loop of lines 98 to 101.\<close>

fun find_conf :: "pyval list \<Rightarrow> string \<Rightarrow> py_exception + pyval" where
  "find_conf [] name = Inl (HTTPException 404 (detail_no_name name))"
| "find_conf (conf # rest) name =
     (case py_getitem conf ''name'' of
        Inl e \<Rightarrow> Inl e
      | Inr v \<Rightarrow> if py_eq_str v name then Inr conf else find_conf rest name)"

definition get_conf_by_name :: "state \<Rightarrow> string \<Rightarrow> py_exception + pyval" where
  "get_conf_by_name st name =
     (case py_iter (config_list st) of Inl e \<Rightarrow> Inl e | Inr confs \<Rightarrow> find_conf confs name)"

section \<open>The routes\<close>

text \<open>
  What a route hands back to the framework: a \<^verbatim>\<open>JSONResponse\<close> with its status code and
  the \<^verbatim>\<open>status\<close> and \<^verbatim>\<open>message\<close> of its body, or an exception that leaves the
  handler. FastAPI answers an \<^verbatim>\<open>HTTPException\<close> with its status code and any other
  exception with 500.
\<close>

datatype http_result = JSONResponse nat string string | Raised py_exception

fun http_status :: "http_result \<Rightarrow> nat" where
  "http_status (JSONResponse code status message) = code"
| "http_status (Raised (HTTPException code detail)) = code"
| "http_status (Raised e) = 500"

text \<open>
  The first two lines of every route (113 and 114, 132 and 133, 143 and 144):
  \<^verbatim>\<open>if startup_error:\<close> holds for a string that is not empty.
\<close>

definition startup_failure :: "state \<Rightarrow> http_result option" where
  "startup_failure st =
     (case startup_error st of
        None \<Rightarrow> None
      | Some e \<Rightarrow> if e \<noteq> [] then Some (JSONResponse 500 ''error'' (''Startup failed: '' @ e)) else None)"

text \<open>
  A route returns its answer, the configurations it has called \<open>perform_ping\<close> with, in
  the order of the calls, and the outside world after them.
\<close>

text \<open>The loop of lines 116 to 120.\<close>

fun ping_each ::
  "('c, 'w) backend \<Rightarrow> runtime \<Rightarrow> pyval list \<Rightarrow> nat \<Rightarrow> 'w \<Rightarrow> (py_exception + nat) \<times> pyval list \<times> 'w" where
  "ping_each B R [] success_count w = (Inr success_count, [], w)"
| "ping_each B R (conf # rest) success_count w =
     (case perform_ping B R conf w of
        (Inl e, w') \<Rightarrow> (Inl e, [conf], w')
      | (Inr (success, msg), w') \<Rightarrow>
          (case ping_each B R rest (if success then success_count + 1 else success_count) w' of
             (r, probed, w'') \<Rightarrow> (r, conf # probed, w'')))"

text \<open>Lines 109 to 127.\<close>

definition keepalive_all ::
  "('c, 'w) backend \<Rightarrow> runtime \<Rightarrow> state \<Rightarrow> 'w \<Rightarrow> http_result \<times> pyval list \<times> 'w" where
  "keepalive_all B R st w =
     (case startup_failure st of
        Some r \<Rightarrow> (r, [], w)
      | None \<Rightarrow>
          (case py_iter (config_list st) of
             Inl e \<Rightarrow> (Raised e, [], w)
           | Inr confs \<Rightarrow>
               (case ping_each B R confs 0 w of
                  (Inl e, probed, w') \<Rightarrow> (Raised e, probed, w')
                | (Inr success_count, probed, w') \<Rightarrow>
                    (case py_len (config_list st) of
                       Inl e \<Rightarrow> (Raised e, probed, w')
                     | Inr n \<Rightarrow>
                         if success_count = n then
                           (JSONResponse 200 ''success'' ''ok'', probed, w')
                         else if success_count > 0 then
                           (JSONResponse 500 ''error'' ''partial_failure'', probed, w')
                         else
                           (JSONResponse 500 ''error'' ''all_failure'', probed, w')))))"

text \<open>Lines 136 to 138 and 147 to 149: one probe and its answer.\<close>

definition ping_one ::
  "('c, 'w) backend \<Rightarrow> runtime \<Rightarrow> pyval \<Rightarrow> 'w \<Rightarrow> http_result \<times> pyval list \<times> 'w" where
  "ping_one B R conf w =
     (case perform_ping B R conf w of
        (Inl e, w') \<Rightarrow> (Raised e, [conf], w')
      | (Inr (success, msg), w') \<Rightarrow>
          (JSONResponse (if success then 200 else 500) (if success then ''success'' else ''error'') msg,
           [conf], w'))"

text \<open>Lines 129 to 138.\<close>

definition keepalive_by_index ::
  "('c, 'w) backend \<Rightarrow> runtime \<Rightarrow> state \<Rightarrow> int \<Rightarrow> 'w \<Rightarrow> http_result \<times> pyval list \<times> 'w" where
  "keepalive_by_index B R st idx w =
     (case startup_failure st of
        Some r \<Rightarrow> (r, [], w)
      | None \<Rightarrow>
          (case get_conf_by_index st idx of
             Inl e \<Rightarrow> (Raised e, [], w)
           | Inr conf \<Rightarrow> ping_one B R conf w))"

text \<open>Lines 141 to 149.\<close>

definition keepalive_by_name ::
  "('c, 'w) backend \<Rightarrow> runtime \<Rightarrow> state \<Rightarrow> string \<Rightarrow> 'w \<Rightarrow> http_result \<times> pyval list \<times> 'w" where
  "keepalive_by_name B R st conf_name w =
     (case startup_failure st of
        Some r \<Rightarrow> (r, [], w)
      | None \<Rightarrow>
          (case get_conf_by_name st conf_name of
             Inl e \<Rightarrow> (Raised e, [], w)
           | Inr conf \<Rightarrow> ping_one B R conf w))"

section \<open>Notions used to state the properties\<close>

text \<open>\<^verbatim>\<open>k in conf\<close> for a configuration \<open>conf\<close>; nothing but a dictionary holds keys.\<close>

definition has_key :: "pyval \<Rightarrow> string \<Rightarrow> bool" where
  "has_key conf k = (case conf of PDict kvs \<Rightarrow> k \<in> set (map fst kvs) | _ \<Rightarrow> False)"

text \<open>The configurations a route has probed, out of what it returns.\<close>

definition probed :: "'a \<times> pyval list \<times> 'w \<Rightarrow> pyval list" where
  "probed r = fst (snd r)"

text \<open>
  A configuration list that passes every check of the module initialisation: it is not
  empty and each element holds the four required fields.
\<close>

definition valid_config :: "pyval list \<Rightarrow> bool" where
  "valid_config confs \<longleftrightarrow>
     confs \<noteq> [] \<and> (\<forall>conf\<in>set confs. \<forall>f\<in>set required_fields. has_key conf f)"

text \<open>
  The success flags of the probes of a list of configurations, run one after the other,
  each in the outside world the one before it has left.
\<close>

fun ping_outcomes :: "('c, 'w) backend \<Rightarrow> runtime \<Rightarrow> pyval list \<Rightarrow> 'w \<Rightarrow> bool list" where
  "ping_outcomes B R [] w = []"
| "ping_outcomes B R (conf # rest) w =
     (case perform_ping B R conf w of
        (r, w') \<Rightarrow>
          (case r of Inr (success, msg) \<Rightarrow> success | Inl e \<Rightarrow> False) # ping_outcomes B R rest w')"




section \<open>A sample deployment\<close>

text \<open>
  A runtime, a backend and some configurations to evaluate the model on. The backend
  counts its calls in the outside world. It refuses to connect to
  \<^verbatim>\<open>https://down.example\<close>, shows no schema at \<^verbatim>\<open>https://bare.example\<close>, and shows
  the schemas \<^verbatim>\<open>public\<close> and \<^verbatim>\<open>audit\<close> everywhere else; only the
  \<^verbatim>\<open>public\<close> schema of \<^verbatim>\<open>https://a.example\<close> has tables.
\<close>

definition example_runtime :: runtime where
  "example_runtime =
     \<lparr>repr_value = (\<lambda>v. case v of PNone \<Rightarrow> ''None'' | PInt i \<Rightarrow> str_int i | _ \<Rightarrow> ''<object>''),
      type_error_text = (\<lambda>f. ''unsupported operand''),
      set_iteration = (\<lambda>xs. xs)\<rparr>"

definition schema_row :: "string \<Rightarrow> pyval" where
  "schema_row s = PDict [(''schema_name'', PStr s)]"

definition table_row :: "string \<Rightarrow> pyval" where
  "table_row t = PDict [(''table_name'', PStr t)]"

definition example_backend :: "(string, nat) backend" where
  "example_backend =
     \<lparr>create_client = (\<lambda>url key w.
        (if url = PStr ''https://down.example'' then Inl ''connection refused''
         else Inr (py_format example_runtime url), Suc w)),
      sql_execute = (\<lambda>c q w.
        (case q of
           SchemasQuery \<Rightarrow>
             if c = ''https://bare.example'' then Inr (PList [])
             else Inr (PList [schema_row ''public'', schema_row ''audit''])
         | TablesQuery s \<Rightarrow>
             if c = ''https://a.example'' \<and> s = ''public''
             then Inr (PList [table_row ''users'', table_row ''orders''])
             else Inr (PList []), Suc w)),
      table_select = (\<lambda>c t w. (Inr (PList []), Suc w))\<rparr>"

definition example_conf :: "string \<Rightarrow> string \<Rightarrow> pyval" where
  "example_conf name url =
     PDict [(''name'', PStr name), (''supabase_url'', PStr url),
            (''supabase_key'', PStr ''secret''), (''table_name'', PStr ''users'')]"

definition example_state :: state where
  "example_state =
     \<lparr>config_list = PList [example_conf ''a'' ''https://a.example'',
                           example_conf ''b'' ''https://down.example''],
      startup_error = None\<rparr>"

definition example_twins :: state where
  "example_twins =
     \<lparr>config_list = PList [example_conf ''a'' ''https://a.example'',
                           example_conf ''a'' ''https://void.example''],
      startup_error = None\<rparr>"

section \<open>Auxiliary facts\<close>

lemmas probe_defs =
  perform_ping_def ping_body_def ping_tables_def ping_first_table_def rows_column_def
  dict_set_def py_format_def py_join_def

lemmas example_defs =
  example_backend_def example_runtime_def example_conf_def schema_row_def table_row_def
  example_state_def

subsection \<open>Keys and messages\<close>

lemma has_key_getitem: "has_key conf k \<longleftrightarrow> (\<exists>v. py_getitem conf k = Inr v)"
proof (cases conf)
  case (PDict kvs)
  have "has_key (PDict kvs) k \<longleftrightarrow> map_of kvs k \<noteq> None"
    by (simp add: has_key_def map_of_eq_None_iff)
  with PDict show ?thesis
    by (cases "map_of kvs k") auto
qed (simp_all add: has_key_def)

lemma str_nat_nonempty: "str_nat n \<noteq> []"
  by (subst str_nat.simps) simp

lemma msg_missing_nonempty: "msg_missing idx ms \<noteq> []"
  by (simp add: msg_missing_def)

subsection \<open>Module initialisation\<close>

text \<open>Every exception the initialisation can record has a text that is not empty, so
  the test \<^verbatim>\<open>if startup_error:\<close> holds exactly when an error was recorded.\<close>

lemma check_fields_str: "check_fields R idx confs = Some e \<Longrightarrow> exception_str R e \<noteq> []"
  by (induction confs arbitrary: idx)
     (auto simp: Let_def msg_missing_nonempty split: sum.splits if_splits elim!: py_keys.elims)

lemma validate_str: "validate R v = Some e \<Longrightarrow> exception_str R e \<noteq> []"
  by (auto simp: validate_def msg_not_array_def msg_empty_array_def
           split: pyval.splits if_splits dest: check_fields_str)

lemma startup_error_nonempty: "startup_error (module_init R d) = Some e \<Longrightarrow> e \<noteq> []"
  by (auto simp: module_init_def split: decoded.splits option.splits dest: validate_str)

lemma startup_failure_init:
  "startup_failure (module_init R d) =
     (case startup_error (module_init R d) of None \<Rightarrow> None
      | Some e \<Rightarrow> Some (JSONResponse 500 ''error'' (''Startup failed: '' @ e)))"
  using startup_error_nonempty [of R d]
  by (auto simp: startup_failure_def split: option.splits)

lemma routes_blocked:
  assumes "startup_error (module_init R d) = Some e"
  shows "keepalive_all B R (module_init R d) w
           = (JSONResponse 500 ''error'' (''Startup failed: '' @ e), [], w)"
    and "keepalive_by_index B R (module_init R d) idx w
           = (JSONResponse 500 ''error'' (''Startup failed: '' @ e), [], w)"
    and "keepalive_by_name B R (module_init R d) conf_name w
           = (JSONResponse 500 ''error'' (''Startup failed: '' @ e), [], w)"
  using assms
  by (simp_all add: keepalive_all_def keepalive_by_index_def keepalive_by_name_def
        startup_failure_init)

lemma check_fields_None:
  "check_fields R idx confs = None \<Longrightarrow> \<forall>conf\<in>set confs. \<forall>f\<in>set required_fields. has_key conf f"
proof (induction confs arbitrary: idx)
  case Nil
  then show ?case by simp
next
  case (Cons conf rest)
  from Cons.prems obtain ks where ks: "py_keys conf = Inr ks"
    and none: "filter (\<lambda>f. f \<notin> set ks) required_fields = []"
    and rest: "check_fields R (Suc idx) rest = None"
    by (auto simp: Let_def split: sum.splits if_splits)
  from ks obtain kvs where conf: "conf = PDict kvs" and "ks = map fst kvs"
    by (cases conf) auto
  with none have "\<forall>f\<in>set required_fields. has_key conf f"
    by (auto simp: has_key_def filter_empty_conv)
  with Cons.IH [OF rest] show ?case by simp
qed

lemma init_ok_valid:
  assumes "startup_error (module_init R d) = None"
  shows "\<exists>confs. config_list (module_init R d) = PList confs \<and> valid_config confs"
proof -
  from assms obtain v where d: "d = Decoded v" and v: "validate R v = None"
    by (auto simp: module_init_def split: decoded.splits option.splits)
  from v obtain confs where confs: "v = PList confs" "confs \<noteq> []" "check_fields R 0 confs = None"
    by (auto simp: validate_def split: pyval.splits if_splits)
  with d v check_fields_None [of R 0 confs] show ?thesis
    by (simp add: module_init_def valid_config_def)
qed

lemma valid_config_named: "valid_config confs \<Longrightarrow> \<forall>conf\<in>set confs. has_key conf ''name''"
  by (simp add: valid_config_def required_fields_def)

text \<open>
  On an array of objects the checks fire in the order of the source: not an array, an
  empty array, and then the first object that lacks a field, with its index and the
  fields it lacks.
\<close>

lemma check_fields_first_missing:
  assumes "i < length confs"
    and "\<forall>j<i. \<forall>f\<in>set required_fields. has_key (confs ! j) f"
    and "confs ! i = PDict kvs"
    and "filter (\<lambda>f. f \<notin> set (map fst kvs)) required_fields \<noteq> []"
  shows "check_fields R k confs
       = Some (ValueError (msg_missing (k + i)
           (set_iteration R (filter (\<lambda>f. f \<notin> set (map fst kvs)) required_fields))))"
  using assms
proof (induction confs arbitrary: i k)
  case Nil
  then show ?case by simp
next
  case (Cons conf rest)
  show ?case
  proof (cases i)
    case 0
    with Cons.prems show ?thesis by (simp add: Let_def)
  next
    case (Suc i')
    with Cons.prems(2) have "\<forall>f\<in>set required_fields. has_key ((conf # rest) ! 0) f"
      by blast
    then have h: "\<forall>f\<in>set required_fields. has_key conf f" by simp
    then obtain kvs0 where conf: "conf = PDict kvs0"
      by (cases conf) (auto simp: has_key_def required_fields_def)
    with h have none: "filter (\<lambda>f. f \<notin> set (map fst kvs0)) required_fields = []"
      by (auto simp: has_key_def filter_empty_conv)
    have "\<forall>j<i'. \<forall>f\<in>set required_fields. has_key (rest ! j) f"
    proof (intro allI impI)
      fix j assume "j < i'"
      then have "Suc j < i" using Suc by simp
      with Cons.prems(2) have "\<forall>f\<in>set required_fields. has_key ((conf # rest) ! Suc j) f"
        by blast
      then show "\<forall>f\<in>set required_fields. has_key (rest ! j) f" by simp
    qed
    with Cons.IH [of i' "Suc k"] Cons.prems Suc
    have "check_fields R (Suc k) rest
       = Some (ValueError (msg_missing (Suc k + i')
           (set_iteration R (filter (\<lambda>f. f \<notin> set (map fst kvs)) required_fields))))"
      by simp
    with conf none Suc show ?thesis by (simp add: Let_def)
  qed
qed

lemma validation_order_on_objects:
  "((\<forall>confs. v \<noteq> PList confs) \<longrightarrow> validate R v = Some (ValueError msg_not_array))
 \<and> validate R (PList []) = Some (ValueError msg_empty_array)
 \<and> (i < length confs
      \<and> (\<forall>j<i. \<forall>f\<in>set required_fields. has_key (confs ! j) f)
      \<and> confs ! i = PDict kvs
      \<and> filter (\<lambda>f. f \<notin> set (map fst kvs)) required_fields \<noteq> [] \<longrightarrow>
    validate R (PList confs)
      = Some (ValueError (msg_missing i
          (set_iteration R (filter (\<lambda>f. f \<notin> set (map fst kvs)) required_fields)))))"
proof (intro conjI impI)
  assume "\<forall>confs. v \<noteq> PList confs"
  then show "validate R v = Some (ValueError msg_not_array)"
    by (cases v) (simp_all add: validate_def)
next
  show "validate R (PList []) = Some (ValueError msg_empty_array)"
    by (simp add: validate_def)
next
  assume a: "i < length confs
      \<and> (\<forall>j<i. \<forall>f\<in>set required_fields. has_key (confs ! j) f)
      \<and> confs ! i = PDict kvs
      \<and> filter (\<lambda>f. f \<notin> set (map fst kvs)) required_fields \<noteq> []"
  then have "confs \<noteq> []" by auto
  with a check_fields_first_missing [of i confs kvs R 0]
  show "validate R (PList confs)
      = Some (ValueError (msg_missing i
          (set_iteration R (filter (\<lambda>f. f \<notin> set (map fst kvs)) required_fields))))"
    by (simp add: validate_def)
qed

subsection \<open>The probe\<close>




lemma perform_ping_total:
  assumes "has_key conf ''name''"
  shows "\<exists>success msg w'. perform_ping B R conf w = (Inr (success, msg), w')"
proof -
  from assms obtain n where "py_getitem conf ''name'' = Inr n"
    by (auto simp: has_key_getitem)
  then show ?thesis
    by (auto simp: perform_ping_def split: prod.splits sum.splits)
qed

lemma ping_first_table_conf:
  assumes "py_getitem conf1 ''name'' = py_getitem conf2 ''name''"
  shows "ping_first_table B R conf1 = ping_first_table B R conf2"
  unfolding ping_first_table_def assms by (rule refl)

lemma ping_tables_conf:
  assumes "py_getitem conf1 ''name'' = py_getitem conf2 ''name''"
  shows "ping_tables B R conf1 = ping_tables B R conf2"
  unfolding ping_tables_def assms ping_first_table_conf [OF assms] by (rule refl)

lemma ping_body_conf:
  assumes "py_getitem conf1 ''name'' = py_getitem conf2 ''name''"
    and "py_getitem conf1 ''supabase_url'' = py_getitem conf2 ''supabase_url''"
    and "py_getitem conf1 ''supabase_key'' = py_getitem conf2 ''supabase_key''"
  shows "ping_body B R conf1 = ping_body B R conf2"
  unfolding ping_body_def assms ping_tables_conf [OF assms(1)] by (rule refl)

lemma collect_tables_none:
  assumes "\<forall>s\<in>set schemas. \<forall>w. \<exists>data w'.
             sql_execute B c (TablesQuery (py_format R s)) w = (Inr data, w')
           \<and> rows_column ''table_name'' data = Inr []"
  shows "\<exists>w'. collect_tables B R c schemas all_tables w = (Inr all_tables, w')"
  using assms
proof (induction schemas arbitrary: w)
  case Nil
  then show ?case by simp
next
  case (Cons s rest)
  from Cons.prems obtain data w1 where
    q: "sql_execute B c (TablesQuery (py_format R s)) w = (Inr data, w1)"
    and e: "rows_column ''table_name'' data = Inr []"
    by (meson list.set_intros(1))
  from Cons.prems have "\<forall>s\<in>set rest. \<forall>w. \<exists>data w'.
             sql_execute B c (TablesQuery (py_format R s)) w = (Inr data, w')
           \<and> rows_column ''table_name'' data = Inr []"
    by simp
  from Cons.IH [OF this, of w1] obtain w2 where
    "collect_tables B R c rest all_tables w1 = (Inr all_tables, w2)" by blast
  with q e show ?case by simp
qed

subsection \<open>The dictionary of tables and the success message\<close>












subsection \<open>Lookups and routes\<close>

lemma probed_ping_one: "probed (ping_one B R conf w) = [conf]"
  by (simp add: ping_one_def probed_def split: prod.splits sum.splits)

lemma ping_each_probed: "set (probed (ping_each B R confs k w)) \<subseteq> set confs"
proof (induction confs arbitrary: k w)
  case Nil
  then show ?case by (simp add: probed_def)
next
  case (Cons conf rest)
  show ?case
  proof (cases "perform_ping B R conf w")
    case (Pair r w')
    show ?thesis
    proof (cases r)
      case (Inl e)
      with Pair show ?thesis by (simp add: probed_def)
    next
      case (Inr sm)
      obtain success msg where sm: "sm = (success, msg)" by (cases sm)
      let ?k = "if success then k + 1 else k"
      have "probed (ping_each B R (conf # rest) k w) = conf # probed (ping_each B R rest ?k w')"
        using Pair Inr sm by (simp add: probed_def split: prod.splits)
      with Cons.IH [of ?k w'] show ?thesis by auto
    qed
  qed
qed

lemma find_conf_mem: "find_conf confs name = Inr conf \<Longrightarrow> conf \<in> set confs"
  by (induction confs) (auto split: sum.splits if_splits)

lemma probed_all_list:
  "config_list st = PList confs \<Longrightarrow> set (probed (keepalive_all B R st w)) \<subseteq> set confs"
  using ping_each_probed [of B R confs 0 w]
  by (auto simp: keepalive_all_def probed_def split: option.splits prod.splits sum.splits)

lemma probed_index_list:
  "config_list st = PList confs \<Longrightarrow> set (probed (keepalive_by_index B R st idx w)) \<subseteq> set confs"
  by (auto simp: keepalive_by_index_def get_conf_by_index_def probed_ping_one
           split: option.splits sum.splits if_splits)
     (auto simp: probed_def)

lemma probed_name_list:
  "config_list st = PList confs \<Longrightarrow> set (probed (keepalive_by_name B R st n w)) \<subseteq> set confs"
  by (auto simp: keepalive_by_name_def get_conf_by_name_def probed_ping_one
           split: option.splits sum.splits if_splits dest: find_conf_mem)
     (auto simp: probed_def)

lemma ping_each_named:
  assumes "\<forall>conf\<in>set confs. has_key conf ''name''"
  shows "\<exists>w'. ping_each B R confs k w
           = (Inr (k + length (filter (\<lambda>b. b) (ping_outcomes B R confs w))), confs, w')"
  using assms
proof (induction confs arbitrary: k w)
  case Nil
  then show ?case by simp
next
  case (Cons conf rest)
  from Cons.prems have "has_key conf ''name''" by simp
  from perform_ping_total [OF this, of B R w]
  obtain success msg w1 where p: "perform_ping B R conf w = (Inr (success, msg), w1)"
    by blast
  from Cons.prems have "\<forall>c\<in>set rest. has_key c ''name''" by simp
  from Cons.IH [OF this, of "if success then k + 1 else k" w1]
  obtain w2 where "ping_each B R rest (if success then k + 1 else k) w1
      = (Inr ((if success then k + 1 else k) + length (filter (\<lambda>b. b) (ping_outcomes B R rest w1))), rest, w2)"
    by blast
  with p show ?case by (cases success) simp_all
qed

lemma length_ping_outcomes: "length (ping_outcomes B R confs w) = length confs"
  by (induction confs arbitrary: w) (auto split: prod.splits)

lemma find_conf_none:
  assumes "\<forall>conf\<in>set confs. has_key conf ''name''"
    and "\<forall>conf\<in>set confs. py_getitem conf ''name'' \<noteq> Inr (PStr name)"
  shows "find_conf confs name = Inl (HTTPException 404 (detail_no_name name))"
  using assms
  by (induction confs) (auto simp: has_key_getitem py_eq_str_def)

lemma find_conf_first:
  assumes "\<forall>conf\<in>set confs. has_key conf ''name''"
    and "i < length confs"
    and "py_getitem (confs ! i) ''name'' = Inr (PStr name)"
    and "\<forall>j<i. py_getitem (confs ! j) ''name'' \<noteq> Inr (PStr name)"
  shows "find_conf confs name = Inr (confs ! i)"
  using assms
proof (induction confs arbitrary: i)
  case Nil
  then show ?case by simp
next
  case (Cons conf rest)
  show ?case
  proof (cases i)
    case 0
    with Cons.prems(3) show ?thesis by (simp add: py_eq_str_def)
  next
    case (Suc i')
    from Cons.prems(1) obtain v where v: "py_getitem conf ''name'' = Inr v"
      by (auto simp: has_key_getitem)
    from Cons.prems(4) Suc have "py_getitem ((conf # rest) ! 0) ''name'' \<noteq> Inr (PStr name)"
      by blast
    with v have nv: "v \<noteq> PStr name" by simp
    have "\<forall>j<i'. py_getitem (rest ! j) ''name'' \<noteq> Inr (PStr name)"
    proof (intro allI impI)
      fix j assume "j < i'"
      then have "Suc j < i" using Suc by simp
      with Cons.prems(4) have "py_getitem ((conf # rest) ! Suc j) ''name'' \<noteq> Inr (PStr name)"
        by blast
      then show "py_getitem (rest ! j) ''name'' \<noteq> Inr (PStr name)" by simp
    qed
    with Cons.IH [of i'] Cons.prems Suc have "find_conf rest name = Inr (rest ! i')"
      by simp
    with v nv Suc show ?thesis by (simp add: py_eq_str_def)
  qed
qed

section \<open>The claims\<close>

text \<open>
  Claim C1. For a valid configuration list, \<open>keepalive_all\<close> calls the probe once for
  each configured target, in order. With \<open>k\<close> the number of probes that succeeded, the
  answer is 200 with status \<^verbatim>\<open>success\<close> and message \<^verbatim>\<open>ok\<close> exactly when \<open>k\<close> is the
  number of targets, 500 with message \<^verbatim>\<open>all_failure\<close> exactly when \<open>k\<close> is zero, and
  500 with message \<^verbatim>\<open>partial_failure\<close> exactly in between.
\<close>

theorem keepalive_all_aggregate:
  assumes "startup_error st = None"
    and "config_list st = PList confs"
    and "valid_config confs"
  shows "probed (keepalive_all B R st w) = confs
       \<and> (let k = length (filter (\<lambda>b. b) (ping_outcomes B R confs w));
              r = fst (keepalive_all B R st w)
          in (r = JSONResponse 200 ''success'' ''ok'' \<longleftrightarrow> k = length confs)
           \<and> (r = JSONResponse 500 ''error'' ''all_failure'' \<longleftrightarrow> k = 0)
           \<and> (r = JSONResponse 500 ''error'' ''partial_failure'' \<longleftrightarrow> 0 < k \<and> k < length confs))"
proof -
  let ?k = "length (filter (\<lambda>b. b) (ping_outcomes B R confs w))"
  from valid_config_named [OF assms(3)] ping_each_named [of confs B R 0 w]
  obtain w' where pe: "ping_each B R confs 0 w = (Inr ?k, confs, w')"
    by auto
  have le: "?k \<le> length confs"
    using length_filter_le [of "\<lambda>b. b" "ping_outcomes B R confs w"]
    by (simp add: length_ping_outcomes)
  from assms(3) have ne: "0 < length confs"
    by (simp add: valid_config_def)
  have r: "keepalive_all B R st w =
     (if ?k = length confs then JSONResponse 200 ''success'' ''ok''
      else if ?k > 0 then JSONResponse 500 ''error'' ''partial_failure''
      else JSONResponse 500 ''error'' ''all_failure'', confs, w')"
    using assms(1,2) pe by (simp add: keepalive_all_def startup_failure_def)
  show ?thesis
    unfolding r Let_def using le ne by (auto simp: probed_def)
qed

theorem keepalive_all_aggregate_witness:
  "valid_config [example_conf ''a'' ''https://a.example'', example_conf ''b'' ''https://down.example'']
 \<and> probed (keepalive_all example_backend example_runtime example_state 0)
     = [example_conf ''a'' ''https://a.example'', example_conf ''b'' ''https://down.example'']
 \<and> fst (keepalive_all example_backend example_runtime example_state 0)
     = JSONResponse 500 ''error'' ''partial_failure''"
proof -
  let ?confs = "[example_conf ''a'' ''https://a.example'', example_conf ''b'' ''https://down.example'']"
  have e: "startup_error example_state = None"
    by (simp add: example_state_def)
  have c: "config_list example_state = PList ?confs"
    by (simp add: example_state_def)
  have v: "valid_config ?confs"
    by (simp add: valid_config_def required_fields_def has_key_def example_conf_def)
  have k: "length (filter (\<lambda>b. b) (ping_outcomes example_backend example_runtime ?confs 0)) = 1"
    by (simp add: probe_defs example_defs)
  from keepalive_all_aggregate [OF e c v, of example_backend example_runtime 0]
  have p: "probed (keepalive_all example_backend example_runtime example_state 0) = ?confs"
    and r: "fst (keepalive_all example_backend example_runtime example_state 0)
              = JSONResponse 500 ''error'' ''partial_failure''
          \<longleftrightarrow> 0 < length (filter (\<lambda>b. b) (ping_outcomes example_backend example_runtime ?confs 0))
            \<and> length (filter (\<lambda>b. b) (ping_outcomes example_backend example_runtime ?confs 0))
                < length ?confs"
    unfolding Let_def by blast+
  from r have "fst (keepalive_all example_backend example_runtime example_state 0)
              = JSONResponse 500 ''error'' ''partial_failure''"
    unfolding k by simp
  with p v show ?thesis by simp
qed



text \<open>
  Claim C3. When the module initialisation has recorded a startup error, each of the
  three routes answers 500 with status \<^verbatim>\<open>error\<close> and message
  \<^verbatim>\<open>Startup failed: {startup_error}\<close>, probes nothing and leaves the outside world
  as it was. The routes do not change the state, so this holds for every request.
\<close>

theorem startup_failure_blocks_every_route:
  assumes "startup_error (module_init R d) = Some e"
  shows "keepalive_all B R (module_init R d) w
           = (JSONResponse 500 ''error'' (''Startup failed: '' @ e), [], w)
       \<and> keepalive_by_index B R (module_init R d) idx w
           = (JSONResponse 500 ''error'' (''Startup failed: '' @ e), [], w)
       \<and> keepalive_by_name B R (module_init R d) conf_name w
           = (JSONResponse 500 ''error'' (''Startup failed: '' @ e), [], w)"
  using assms
  by (simp add: keepalive_all_def keepalive_by_index_def keepalive_by_name_def startup_failure_init)

theorem startup_failure_blocks_every_route_witness:
  "startup_error (module_init example_runtime (Decoded (PDict []))) = Some msg_not_array
 \<and> keepalive_all example_backend example_runtime (module_init example_runtime (Decoded (PDict []))) 0
     = (JSONResponse 500 ''error'' (''Startup failed: '' @ msg_not_array), [], 0)
 \<and> keepalive_by_index example_backend example_runtime (module_init example_runtime (Decoded (PDict []))) 0 0
     = (JSONResponse 500 ''error'' (''Startup failed: '' @ msg_not_array), [], 0)
 \<and> keepalive_by_name example_backend example_runtime (module_init example_runtime (Decoded (PDict []))) ''a'' 0
     = (JSONResponse 500 ''error'' (''Startup failed: '' @ msg_not_array), [], 0)"
proof -
  have h: "startup_error (module_init example_runtime (Decoded (PDict []))) = Some msg_not_array"
    by (simp add: module_init_def validate_def)
  from startup_failure_blocks_every_route [OF h, of example_backend 0 0 "''a''"] h
  show ?thesis by simp
qed

text \<open>
  Claim C4. The claim has every element that lacks required keys reported with its
  index and the missing keys. For the array \<^verbatim>\<open>[5]\<close> the source records the text of
  the \<^verbatim>\<open>AttributeError\<close> raised by \<^verbatim>\<open>conf.keys()\<close> instead, which names neither the
  index nor a key.
\<close>

theorem non_object_element_loses_index:
  "startup_error (module_init R (Decoded (PList [PInt 5])))
     = Some ([CHR 0x27] @ ''int'' @ [CHR 0x27] @ '' object has no attribute '' @ [CHR 0x27]
             @ ''keys'' @ [CHR 0x27])
 \<and> startup_error (module_init R (Decoded (PList [PInt 5])))
     \<noteq> Some (msg_missing 0 (set_iteration R required_fields))"
  by (simp add: module_init_def validate_def msg_missing_def)

text \<open>
  Claim C5. For an index outside \<open>0 \<le> idx < len(config_list)\<close> the lookup raises the
  404 exception, which the route by index passes on without probing; for an index
  inside the range it returns the configuration at that position.
\<close>

theorem get_conf_by_index_range:
  assumes "config_list st = PList confs"
  shows "(idx < 0 \<or> idx \<ge> int (length confs) \<longrightarrow>
            get_conf_by_index st idx = Inl (HTTPException 404 (detail_no_index idx))
          \<and> (startup_error st = None \<longrightarrow>
                http_status (fst (keepalive_by_index B R st idx w)) = 404
              \<and> probed (keepalive_by_index B R st idx w) = []))
       \<and> (0 \<le> idx \<and> idx < int (length confs) \<longrightarrow>
            get_conf_by_index st idx = Inr (confs ! nat idx))"
  using assms
  by (auto simp: get_conf_by_index_def keepalive_by_index_def startup_failure_def probed_def)

theorem get_conf_by_index_range_witness:
  "get_conf_by_index example_state 5 = Inl (HTTPException 404 (detail_no_index 5))
 \<and> http_status (fst (keepalive_by_index example_backend example_runtime example_state 5 0)) = 404
 \<and> get_conf_by_index example_state (- 1) = Inl (HTTPException 404 (detail_no_index (- 1)))
 \<and> get_conf_by_index example_state 1 = Inr (example_conf ''b'' ''https://down.example'')"
proof -
  let ?confs = "[example_conf ''a'' ''https://a.example'', example_conf ''b'' ''https://down.example'']"
  have c: "config_list example_state = PList ?confs"
    by (simp add: example_state_def)
  have e: "startup_error example_state = None"
    by (simp add: example_state_def)
  from get_conf_by_index_range [OF c, of 5 example_backend example_runtime 0]
       get_conf_by_index_range [OF c, of "- 1" example_backend example_runtime 0]
       get_conf_by_index_range [OF c, of 1 example_backend example_runtime 0] e
  show ?thesis by simp
qed

text \<open>
  Claim C6. Over configurations that all have a \<^verbatim>\<open>name\<close>: for a name that no
  configuration carries the lookup raises the 404 exception, which the route by name
  passes on without probing; otherwise it returns the configuration of lowest index
  that carries the name.
\<close>

theorem get_conf_by_name_first_match:
  assumes "config_list st = PList confs"
    and "\<forall>conf\<in>set confs. has_key conf ''name''"
  shows "((\<forall>conf\<in>set confs. py_getitem conf ''name'' \<noteq> Inr (PStr name)) \<longrightarrow>
            get_conf_by_name st name = Inl (HTTPException 404 (detail_no_name name))
          \<and> (startup_error st = None \<longrightarrow>
                http_status (fst (keepalive_by_name B R st name w)) = 404
              \<and> probed (keepalive_by_name B R st name w) = []))
       \<and> (\<forall>i<length confs.
            py_getitem (confs ! i) ''name'' = Inr (PStr name)
          \<and> (\<forall>j<i. py_getitem (confs ! j) ''name'' \<noteq> Inr (PStr name)) \<longrightarrow>
            get_conf_by_name st name = Inr (confs ! i))"
proof (intro conjI impI allI)
  assume none: "\<forall>conf\<in>set confs. py_getitem conf ''name'' \<noteq> Inr (PStr name)"
  from find_conf_none [OF assms(2) none] assms(1)
  show g: "get_conf_by_name st name = Inl (HTTPException 404 (detail_no_name name))"
    by (simp add: get_conf_by_name_def)
  assume "startup_error st = None"
  with g show "http_status (fst (keepalive_by_name B R st name w)) = 404"
    and "probed (keepalive_by_name B R st name w) = []"
    by (simp_all add: keepalive_by_name_def startup_failure_def probed_def)
next
  fix i
  assume "i < length confs"
    and "py_getitem (confs ! i) ''name'' = Inr (PStr name)
          \<and> (\<forall>j<i. py_getitem (confs ! j) ''name'' \<noteq> Inr (PStr name))"
  with find_conf_first [OF assms(2), of i name] assms(1)
  show "get_conf_by_name st name = Inr (confs ! i)"
    by (simp add: get_conf_by_name_def)
qed

theorem get_conf_by_name_first_match_witness:
  "get_conf_by_name example_twins ''c'' = Inl (HTTPException 404 (detail_no_name ''c''))
 \<and> http_status (fst (keepalive_by_name example_backend example_runtime example_twins ''c'' 0)) = 404
 \<and> get_conf_by_name example_twins ''a'' = Inr (example_conf ''a'' ''https://a.example'')"
proof -
  let ?confs = "[example_conf ''a'' ''https://a.example'', example_conf ''a'' ''https://void.example'']"
  have c: "config_list example_twins = PList ?confs"
    by (simp add: example_twins_def)
  have e: "startup_error example_twins = None"
    by (simp add: example_twins_def)
  have n: "\<forall>conf\<in>set ?confs. has_key conf ''name''"
    by (simp add: has_key_def example_conf_def)
  have no: "\<forall>conf\<in>set ?confs. py_getitem conf ''name'' \<noteq> Inr (PStr ''c'')"
    by (simp add: example_conf_def)
  have first: "py_getitem (?confs ! 0) ''name'' = Inr (PStr ''a'')
             \<and> (\<forall>j<0. py_getitem (?confs ! j) ''name'' \<noteq> Inr (PStr ''a''))"
    by (simp add: example_conf_def)
  from get_conf_by_name_first_match [OF c n, of "''c''" example_backend example_runtime 0] no e
  have a: "get_conf_by_name example_twins ''c'' = Inl (HTTPException 404 (detail_no_name ''c''))
         \<and> http_status (fst (keepalive_by_name example_backend example_runtime example_twins ''c'' 0)) = 404"
    by blast
  from get_conf_by_name_first_match [OF c n, of "''a''" example_backend example_runtime 0] first
  have "get_conf_by_name example_twins ''a'' = Inr (?confs ! 0)"
    by (metis length_greater_0_conv list.distinct(1))
  with a show ?thesis by simp
qed

text \<open>
  Claim C7. Once the client is created and the schema query has answered: with no
  schema the probe returns false with \<^verbatim>\<open>No schemas found for {name}\<close>; with schemas
  whose table queries all answer with no table it returns false with
  \<^verbatim>\<open>No tables found in any schema for {name}\<close>.
\<close>

theorem stage_specific_diagnostics:
  assumes "py_getitem conf ''name'' = Inr n"
    and "py_getitem conf ''supabase_url'' = Inr url"
    and "py_getitem conf ''supabase_key'' = Inr key"
    and "create_client B url key w = (Inr c, w1)"
    and "sql_execute B c SchemasQuery w1 = (Inr data, w2)"
    and "rows_column ''schema_name'' data = Inr schemas"
  shows "(schemas = [] \<longrightarrow>
            perform_ping B R conf w = (Inr (False, ''No schemas found for '' @ py_format R n), w2))
       \<and> (schemas \<noteq> []
          \<and> (\<forall>s\<in>set schemas. \<forall>w. \<exists>tdata w'.
                sql_execute B c (TablesQuery (py_format R s)) w = (Inr tdata, w')
              \<and> rows_column ''table_name'' tdata = Inr []) \<longrightarrow>
            (\<exists>w3. perform_ping B R conf w
               = (Inr (False, ''No tables found in any schema for '' @ py_format R n), w3)))"
proof (intro conjI impI)
  assume "schemas = []"
  with assms show "perform_ping B R conf w
      = (Inr (False, ''No schemas found for '' @ py_format R n), w2)"
    by (simp add: perform_ping_def ping_body_def)
next
  assume a: "schemas \<noteq> []
          \<and> (\<forall>s\<in>set schemas. \<forall>w. \<exists>tdata w'.
                sql_execute B c (TablesQuery (py_format R s)) w = (Inr tdata, w')
              \<and> rows_column ''table_name'' tdata = Inr [])"
  then obtain w3 where "collect_tables B R c schemas [] w2 = (Inr [], w3)"
    using collect_tables_none [of schemas B c R "[]" w2] by blast
  with assms a have "perform_ping B R conf w
      = (Inr (False, ''No tables found in any schema for '' @ py_format R n), w3)"
    by (simp add: perform_ping_def ping_body_def ping_tables_def)
  then show "\<exists>w3. perform_ping B R conf w
      = (Inr (False, ''No tables found in any schema for '' @ py_format R n), w3)"
    by blast
qed

theorem stage_specific_diagnostics_witness:
  "perform_ping example_backend example_runtime (example_conf ''c'' ''https://bare.example'') 0
     = (Inr (False, ''No schemas found for c''), 2)
 \<and> perform_ping example_backend example_runtime (example_conf ''d'' ''https://void.example'') 0
     = (Inr (False, ''No tables found in any schema for d''), 4)"
proof -
  let ?c = "example_conf ''c'' ''https://bare.example''"
  let ?d = "example_conf ''d'' ''https://void.example''"
  have c1: "py_getitem ?c ''name'' = Inr (PStr ''c'')"
    and c2: "py_getitem ?c ''supabase_url'' = Inr (PStr ''https://bare.example'')"
    and c3: "py_getitem ?c ''supabase_key'' = Inr (PStr ''secret'')"
    by (simp_all add: example_conf_def)
  have c4: "create_client example_backend (PStr ''https://bare.example'') (PStr ''secret'') 0
      = (Inr ''https://bare.example'', 1)"
    by (simp add: example_backend_def py_format_def)
  have c5: "sql_execute example_backend ''https://bare.example'' SchemasQuery 1 = (Inr (PList []), 2)"
    by (simp add: example_backend_def)
  have c6: "rows_column ''schema_name'' (PList []) = Inr []"
    by (simp add: rows_column_def)
  from stage_specific_diagnostics [OF c1 c2 c3 c4 c5 c6, of example_runtime]
  have first: "perform_ping example_backend example_runtime ?c 0
     = (Inr (False, ''No schemas found for c''), 2)"
    by (simp add: py_format_def)
  have d1: "py_getitem ?d ''name'' = Inr (PStr ''d'')"
    and d2: "py_getitem ?d ''supabase_url'' = Inr (PStr ''https://void.example'')"
    and d3: "py_getitem ?d ''supabase_key'' = Inr (PStr ''secret'')"
    by (simp_all add: example_conf_def)
  have d4: "create_client example_backend (PStr ''https://void.example'') (PStr ''secret'') 0
      = (Inr ''https://void.example'', 1)"
    by (simp add: example_backend_def py_format_def)
  have d5: "sql_execute example_backend ''https://void.example'' SchemasQuery 1
      = (Inr (PList [schema_row ''public'', schema_row ''audit'']), 2)"
    by (simp add: example_backend_def)
  have d6: "rows_column ''schema_name'' (PList [schema_row ''public'', schema_row ''audit''])
      = Inr [PStr ''public'', PStr ''audit'']"
    by (simp add: rows_column_def schema_row_def)
  have d7: "\<forall>s\<in>set [PStr ''public'', PStr ''audit'']. \<forall>w. \<exists>tdata w'.
      sql_execute example_backend ''https://void.example'' (TablesQuery (py_format example_runtime s)) w
        = (Inr tdata, w')
      \<and> rows_column ''table_name'' tdata = Inr []"
    by (simp add: example_backend_def rows_column_def)
  from stage_specific_diagnostics [OF d1 d2 d3 d4 d5 d6, of example_runtime] d7
  obtain w3 where "perform_ping example_backend example_runtime ?d 0
     = (Inr (False, ''No tables found in any schema for '' @ py_format example_runtime (PStr ''d'')), w3)"
    by auto
  moreover have "snd (perform_ping example_backend example_runtime ?d 0) = 4"
    by (simp add: probe_defs example_defs)
  ultimately have "perform_ping example_backend example_runtime ?d 0
     = (Inr (False, ''No tables found in any schema for d''), 4)"
    by (simp add: py_format_def)
  with first show ?thesis by simp
qed




text \<open>
  Claim C9. Two configurations that agree on \<^verbatim>\<open>name\<close>, \<^verbatim>\<open>supabase_url\<close> and
  \<^verbatim>\<open>supabase_key\<close> (each present with the same value, or absent in both) are probed
  alike against the same backend in the same outside world: the result and the world
  left behind are equal, whatever \<^verbatim>\<open>table_name\<close> is or whether it is there.
\<close>

theorem table_name_does_not_influence_probe:
  assumes "py_getitem conf1 ''name'' = py_getitem conf2 ''name''"
    and "py_getitem conf1 ''supabase_url'' = py_getitem conf2 ''supabase_url''"
    and "py_getitem conf1 ''supabase_key'' = py_getitem conf2 ''supabase_key''"
  shows "perform_ping B R conf1 w = perform_ping B R conf2 w"
  unfolding perform_ping_def assms(1) ping_body_conf [OF assms] by (rule refl)

theorem table_name_does_not_influence_probe_witness:
  "perform_ping example_backend example_runtime (example_conf ''a'' ''https://a.example'') 0
     = perform_ping example_backend example_runtime
         (PDict [(''name'', PStr ''a''), (''supabase_url'', PStr ''https://a.example''),
                 (''supabase_key'', PStr ''secret'')]) 0
 \<and> example_conf ''a'' ''https://a.example''
     \<noteq> PDict [(''name'', PStr ''a''), (''supabase_url'', PStr ''https://a.example''),
              (''supabase_key'', PStr ''secret'')]"
proof -
  let ?c2 = "PDict [(''name'', PStr ''a''), (''supabase_url'', PStr ''https://a.example''),
                 (''supabase_key'', PStr ''secret'')]"
  have 1: "py_getitem (example_conf ''a'' ''https://a.example'') ''name'' = py_getitem ?c2 ''name''"
    by (simp add: example_conf_def)
  have 2: "py_getitem (example_conf ''a'' ''https://a.example'') ''supabase_url''
         = py_getitem ?c2 ''supabase_url''"
    by (simp add: example_conf_def)
  have 3: "py_getitem (example_conf ''a'' ''https://a.example'') ''supabase_key''
         = py_getitem ?c2 ''supabase_key''"
    by (simp add: example_conf_def)
  from table_name_does_not_influence_probe [OF 1 2 3, of example_backend example_runtime 0]
  show ?thesis by (simp add: example_conf_def)
qed

text \<open>
  Claim C10. After the module initialisation, when \<open>startup_error\<close> is \<^verbatim>\<open>None\<close> the
  \<open>config_list\<close> is a non-empty list whose elements all hold the four required fields;
  and every configuration that a route hands to the probe holds the key \<^verbatim>\<open>name\<close>.
\<close>

theorem startup_ok_invariant:
  "(startup_error (module_init R d) = None \<longrightarrow>
      (\<exists>confs. config_list (module_init R d) = PList confs \<and> confs \<noteq> []
         \<and> (\<forall>conf\<in>set confs. \<forall>f\<in>set required_fields. has_key conf f)))
 \<and> (\<forall>conf\<in>set (probed (keepalive_all B R (module_init R d) w)). has_key conf ''name'')
 \<and> (\<forall>conf\<in>set (probed (keepalive_by_index B R (module_init R d) idx w)). has_key conf ''name'')
 \<and> (\<forall>conf\<in>set (probed (keepalive_by_name B R (module_init R d) conf_name w)).
        has_key conf ''name'')"
proof (cases "startup_error (module_init R d)")
  case None
  from init_ok_valid [OF None] obtain confs where
    c: "config_list (module_init R d) = PList confs" and v: "valid_config confs"
    by blast
  from v have n: "\<forall>conf\<in>set confs. has_key conf ''name''"
    by (rule valid_config_named)
  from probed_all_list [OF c, of B R w] probed_index_list [OF c, of B R idx w]
    probed_name_list [OF c, of B R conf_name w] n c v
  show ?thesis by (auto simp: valid_config_def)
next
  case (Some e)
  have "probed (keepalive_all B R (module_init R d) w) = []"
    and "probed (keepalive_by_index B R (module_init R d) idx w) = []"
    and "probed (keepalive_by_name B R (module_init R d) conf_name w) = []"
    by (simp_all add: probed_def routes_blocked [OF Some])
  with Some show ?thesis by simp
qed

theorem startup_ok_invariant_witness:
  "startup_error (module_init example_runtime (Decoded (config_list example_state))) = None
 \<and> config_list (module_init example_runtime (Decoded (config_list example_state)))
     = PList [example_conf ''a'' ''https://a.example'', example_conf ''b'' ''https://down.example'']
 \<and> probed (keepalive_by_index example_backend example_runtime
       (module_init example_runtime (Decoded (config_list example_state))) 1 0)
     = [example_conf ''b'' ''https://down.example'']
 \<and> has_key (example_conf ''b'' ''https://down.example'') ''name''"
proof -
  let ?st = "module_init example_runtime (Decoded (config_list example_state))"
  have st: "?st = example_state"
    by (simp add: module_init_def validate_def example_state_def example_conf_def
          required_fields_def)
  have e: "startup_error ?st = None"
    by (simp add: st) (simp add: example_state_def)
  have c: "config_list ?st
     = PList [example_conf ''a'' ''https://a.example'', example_conf ''b'' ''https://down.example'']"
    by (simp add: st) (simp add: example_state_def)
  have p: "probed (keepalive_by_index example_backend example_runtime ?st 1 0)
     = [example_conf ''b'' ''https://down.example'']"
    by (simp add: st) (simp add: keepalive_by_index_def startup_failure_def get_conf_by_index_def
          probed_ping_one example_state_def)
  from startup_ok_invariant [of example_runtime "Decoded (config_list example_state)"
      example_backend 0 1 "''a''"] p
  have "has_key (example_conf ''b'' ''https://down.example'') ''name''"
    by simp
  with e c p show ?thesis by simp
qed

end
